theory Spec2Isabelle
  imports Main
begin

section \<open>Data of the gateway\<close>

text \<open>
  A Go \<open>string\<close> is a sequence of bytes: \<^typ>\<open>string\<close>. An \<open>error\<close> value is never
  inspected by the handlers beyond \<open>err != nil\<close>; it carries its message.
\<close>

datatype error = Error string

text \<open>\<open>drive.File\<close>, with the fields the program reads or writes.\<close>

record drive_file =
  f_Id :: string
  f_Name :: string
  f_MimeType :: string
  f_Parents :: "string list"
  f_WebViewLink :: string

text \<open>The anonymous struct \<open>s\<close> of \<open>ServiceAccount\<close> and the \<open>jwt.Config\<close> built from it.
  \<open>config.Client\<close> wraps the configuration and performs no I/O, so the client is
  identified with its configuration.\<close>

record secret =
  s_Email :: string
  s_PrivateKey :: string

record client =
  cfg_Email :: string
  cfg_PrivateKey :: string
  cfg_Scopes :: "string list"
  cfg_TokenURL :: string

datatype service = Service client

text \<open>An \<open>io.Reader\<close> handed out by the remote store: the bytes it yields, and the
  error (if any) it reports after them instead of end-of-file.\<close>

record reader =
  rd_data :: string
  rd_err :: "error option"

text \<open>The \<open>*http.Response\<close> of a download: \<open>Header.Get("Content-Type")\<close> and \<open>Body\<close>.\<close>

record http_response =
  hdr_ContentType :: string
  resp_Body :: reader

text \<open>\<open>*multipart.FileHeader\<close>: \<open>Filename\<close>, \<open>Header.Get("Content-Type")\<close>, and what
  \<open>Open()\<close> returns (the content of the part, or an error).\<close>

record FileHeader =
  fh_Filename :: string
  fh_ContentType :: string
  fh_Open :: "error + string"

text \<open>The local struct \<open>requestBody\<close> of \<open>getFileMetadataHandler\<close>.\<close>

record requestBody =
  FileID :: string
  FileName :: string

text \<open>
  \<open>echo.Context\<close>, reduced to the accessors the handlers call. \<open>Bind\<close> either fails
  or yields the decoded body. \<open>writer_cap\<close> is the number of bytes the client
  connection accepts before a write fails (\<open>None\<close>: it accepts everything).
\<close>

record echo_context =
  FormValue :: "string \<Rightarrow> string"
  FormFile :: "string \<Rightarrow> error + FileHeader"
  QueryParam :: "string \<Rightarrow> string"
  Param :: "string \<Rightarrow> string"
  Bind :: "error + requestBody"
  writer_cap :: "nat option"

text \<open>JSON values as the handlers build them (\<open>map[string]string\<close>,
  \<open>map[string]interface{}\<close>, and the file list of the list endpoint).\<close>

datatype json =
    JString string
  | JFiles "drive_file list"
  | JObject "(string \<times> json) list"


text \<open>What a handler writes to the client: \<open>c.JSON(code, body)\<close>, or
  \<open>c.Stream(code, contentType, r)\<close> with the bytes that reached the client and the
  error of the copy.\<close>

datatype response =
    JSON nat json
  | Stream nat string string "error option"

text \<open>
  The trace of a handler run: every call that leaves the handler, with its reply, the
  deferred \<open>Close\<close> calls, and the response written.
\<close>

datatype event =
    EvReadFile string "error + string"
  | EvNewService "error + service"
  | EvList string "error + drive_file list"
  | EvDelete string "error option"
  | EvCreate drive_file string "error + drive_file"
  | EvGet string "error + drive_file"
  | EvDownload string "error + http_response"
  | EvCloseSrc
  | EvCloseBody
  | EvRespond response

text \<open>\<open>log.Fatal\<close> ends the process (\<open>os.Exit(1)\<close>): the caller never gets a value,
  and deferred calls do not run.\<close>

datatype 'a or_exit = ProcessExit | Return 'a

datatype status = Exited | Returned

text \<open>
  The collaborators outside the repository. The remote store has a state of type
  \<open>'w\<close>; every remote call reads it and may change it. Reading the secret file and
  decoding JSON are local. \<open>json_Unmarshal\<close> returns the error and the struct as it
  is left after decoding; \<open>DriveScope\<close> and \<open>JWTTokenURL\<close> are the two library
  constants. The \<open>Fields\<close> selectors of the calls are fixed strings; a reply is taken
  as the client library decodes it. Log lines are not part of the model, and the
  error value \<open>c.JSON\<close> or \<open>c.Stream\<close> hands back to the router is not tracked.
\<close>

record 'w env =
  os_ReadFile :: "string \<Rightarrow> error + string"
  json_Unmarshal :: "string \<Rightarrow> error option \<times> secret"
  DriveScope :: string
  JWTTokenURL :: string
  drive_NewService :: "client \<Rightarrow> error + service"
  Files_List :: "service \<Rightarrow> string \<Rightarrow> 'w \<Rightarrow> (error + drive_file list) \<times> 'w"
  Files_Delete :: "service \<Rightarrow> string \<Rightarrow> 'w \<Rightarrow> error option \<times> 'w"
  Files_Create :: "service \<Rightarrow> drive_file \<Rightarrow> string \<Rightarrow> 'w \<Rightarrow> (error + drive_file) \<times> 'w"
  Files_Get :: "service \<Rightarrow> string \<Rightarrow> 'w \<Rightarrow> (error + drive_file) \<times> 'w"
  Files_Download :: "service \<Rightarrow> string \<Rightarrow> 'w \<Rightarrow> (error + http_response) \<times> 'w"

section \<open>The program\<close>

definition H_error :: "string \<Rightarrow> json" where
  "H_error msg = JObject [(''error'', JString msg)]"

definition file_data :: "drive_file \<Rightarrow> json" where
  "file_data f = JObject [(''file_id'', JString (f_Id f)), (''file_name'', JString (f_Name f)),
     (''file_url'', JString (f_WebViewLink f))]"

definition sq :: string where
  "sq = [CHR 0x27]"

subsection \<open>ServiceAccount\<close>

definition ServiceAccount :: "'w env \<Rightarrow> string \<Rightarrow> client or_exit \<times> event list" where
  "ServiceAccount env secretFile =
     (case os_ReadFile env secretFile of
        Inl err \<Rightarrow> (ProcessExit, [EvReadFile secretFile (Inl err)])
      | Inr b \<Rightarrow>
          (let s = snd (json_Unmarshal env b);
               config = \<lparr>cfg_Email = s_Email s, cfg_PrivateKey = s_PrivateKey s,
                         cfg_Scopes = [DriveScope env], cfg_TokenURL = JWTTokenURL env\<rparr>
           in (Return config, [EvReadFile secretFile (Inr b)])))"

subsection \<open>createFile\<close>

definition createFile ::
  "'w env \<Rightarrow> service \<Rightarrow> string \<Rightarrow> string \<Rightarrow> string \<Rightarrow> string \<Rightarrow> 'w
     \<Rightarrow> (error + drive_file) \<times> event list \<times> 'w" where
  "createFile env srv name mimeType content parentId w =
     (let f = \<lparr>f_Id = [], f_Name = name, f_MimeType = mimeType, f_Parents = [parentId],
                f_WebViewLink = []\<rparr>;
          (r, w') = Files_Create env srv f content w
      in (r, [EvCreate f content r], w'))"

text \<open>A \<open>defer\<close>red call runs when the handler returns, not when the process exits.\<close>

definition deferred :: "event \<Rightarrow> status \<times> event list \<times> 'w \<Rightarrow> status \<times> event list \<times> 'w" where
  "deferred ev run =
     (case run of (st, tr, w) \<Rightarrow> (st, (if st = Exited then tr else tr @ [ev]), w))"

definition c_JSON :: "nat \<Rightarrow> json \<Rightarrow> event" where
  "c_JSON code body = EvRespond (JSON code body)"

subsection \<open>uploadFileHandler\<close>

definition uploadFileHandler :: "'w env \<Rightarrow> echo_context \<Rightarrow> 'w \<Rightarrow> status \<times> event list \<times> 'w" where
  "uploadFileHandler env c w =
     (let folderId = FormValue c ''folder'' in
      if folderId = [] then (Returned, [c_JSON 400 (H_error ''Folder ID is required'')], w)
      else
        (case FormFile c ''file'' of
           Inl err \<Rightarrow> (Returned, [c_JSON 400 (H_error ''Failed to read file from request'')], w)
         | Inr file \<Rightarrow>
        (case fh_Open file of
           Inl err \<Rightarrow> (Returned, [c_JSON 500 (H_error ''Failed to open file'')], w)
         | Inr src \<Rightarrow> deferred EvCloseSrc
        (case ServiceAccount env ''.info_source.json'' of
           (ProcessExit, t0) \<Rightarrow> (Exited, t0, w)
         | (Return client, t0) \<Rightarrow>
        (case drive_NewService env client of
           Inl err \<Rightarrow>
             (Returned, t0 @ [EvNewService (Inl err),
                c_JSON 500 (H_error ''Failed to create Google Drive service'')], w)
         | Inr srv \<Rightarrow>
        (let q = ''name='' @ sq @ fh_Filename file @ sq;
             (r, w1) = Files_List env srv q w;
             t1 = t0 @ [EvNewService (Inr srv), EvList q r]
         in
        (case r of
           Inl err \<Rightarrow>
             (Returned, t1 @ [c_JSON 500 (H_error ''Failed to list files in Google Drive'')], w1)
         | Inr files \<Rightarrow>
        (let (d, t2, w2) =
               (if length files > 0
                then (let (d, w2) = Files_Delete env srv (f_Id (files ! 0)) w1
                      in (d, t1 @ [EvDelete (f_Id (files ! 0)) d], w2))
                else (None, t1, w1))
         in
        (case d of
           Some err \<Rightarrow>
             (Returned, t2 @ [c_JSON 500 (H_error ''Failed to delete file from Google Drive'')], w2)
         | None \<Rightarrow>
        (case createFile env srv (fh_Filename file) (fh_ContentType file) src folderId w2 of
           (Inl err, t3, w3) \<Rightarrow>
             (Returned, t2 @ t3 @ [c_JSON 500 (H_error ''Failed to upload file to Google Drive'')], w3)
         | (Inr uploadedFile, t3, w3) \<Rightarrow>
        (let (g, w4) = Files_Get env srv (f_Id uploadedFile) w3;
             t4 = t2 @ t3 @ [EvGet (f_Id uploadedFile) g]
         in
        (case g of
           Inl err \<Rightarrow>
             (Returned, t4 @ [c_JSON 500 (H_error ''Failed to get file metadata from Google Drive'')], w4)
         | Inr getFile \<Rightarrow>
             (Returned, t4 @ [c_JSON 200 (JObject [(''message'', JString ''File successfully uploaded''),
                (''data'', file_data getFile)])], w4)))))))))))))"

subsection \<open>listFilesHandler\<close>

definition listFilesHandler :: "'w env \<Rightarrow> echo_context \<Rightarrow> 'w \<Rightarrow> status \<times> event list \<times> 'w" where
  "listFilesHandler env c w =
     (let folderId = QueryParam c ''folder'' in
      if folderId = [] then (Returned, [c_JSON 400 (H_error ''Folder ID is required'')], w)
      else
        (case ServiceAccount env ''.info_source.json'' of
           (ProcessExit, t0) \<Rightarrow> (Exited, t0, w)
         | (Return client, t0) \<Rightarrow>
        (case drive_NewService env client of
           Inl err \<Rightarrow>
             (Returned, t0 @ [EvNewService (Inl err),
                c_JSON 500 (H_error ''Failed to create Google Drive service'')], w)
         | Inr srv \<Rightarrow>
        (let q = sq @ folderId @ sq @ '' in parents'';
             (r, w1) = Files_List env srv q w;
             t1 = t0 @ [EvNewService (Inr srv), EvList q r]
         in
        (case r of
           Inl err \<Rightarrow>
             (Returned, t1 @ [c_JSON 500 (H_error ''Failed to list files in Google Drive'')], w1)
         | Inr files \<Rightarrow>
             (Returned, t1 @ [c_JSON 200 (JObject [(''message'', JString ''Files successfully retrieved''),
                (''data'', JObject [(''folder_id'', JString folderId), (''files'', JFiles files)])])],
              w1))))))"

subsection \<open>getFileHandler\<close>

text \<open>
  \<open>c.Stream\<close> of the framework sets the content type, writes the status and copies
  the reader to the client with \<open>io.Copy\<close>: the copy ends at the first failed write
  (after \<open>writer_cap\<close> bytes) or with the reader's own end (end-of-file, or its
  error).
\<close>

definition io_Copy :: "nat option \<Rightarrow> reader \<Rightarrow> string \<times> error option" where
  "io_Copy cap r =
     (case cap of
        None \<Rightarrow> (rd_data r, rd_err r)
      | Some n \<Rightarrow>
          if n < length (rd_data r) then (take n (rd_data r), Some (Error ''short write''))
          else (rd_data r, rd_err r))"

definition c_Stream :: "echo_context \<Rightarrow> nat \<Rightarrow> string \<Rightarrow> reader \<Rightarrow> event" where
  "c_Stream c code contentType r =
     (case io_Copy (writer_cap c) r of (sent, err) \<Rightarrow> EvRespond (Stream code contentType sent err))"

definition getFileHandler :: "'w env \<Rightarrow> echo_context \<Rightarrow> 'w \<Rightarrow> status \<times> event list \<times> 'w" where
  "getFileHandler env c w =
     (let fileId = Param c ''fileId'' in
      if fileId = [] then (Returned, [c_JSON 400 (H_error ''File ID is required'')], w)
      else
        (case ServiceAccount env ''.info_source.json'' of
           (ProcessExit, t0) \<Rightarrow> (Exited, t0, w)
         | (Return client, t0) \<Rightarrow>
        (case drive_NewService env client of
           Inl err \<Rightarrow>
             (Returned, t0 @ [EvNewService (Inl err),
                c_JSON 500 (H_error ''Failed to create Google Drive service'')], w)
         | Inr srv \<Rightarrow>
        (let (r, w1) = Files_Download env srv fileId w;
             t1 = t0 @ [EvNewService (Inr srv), EvDownload fileId r]
         in
        (case r of
           Inl err \<Rightarrow>
             (Returned, t1 @ [c_JSON 500 (H_error ''Failed to get file from Google Drive'')], w1)
         | Inr file \<Rightarrow>
             deferred EvCloseBody
               (Returned, t1 @ [c_Stream c 200 (hdr_ContentType file) (resp_Body file)], w1))))))"

subsection \<open>getFileMetadataHandler\<close>

definition getFileMetadataHandler :: "'w env \<Rightarrow> echo_context \<Rightarrow> 'w \<Rightarrow> status \<times> event list \<times> 'w" where
  "getFileMetadataHandler env c w =
     (case Bind c of
        Inl err \<Rightarrow> (Returned, [c_JSON 400 (H_error ''Invalid request body'')], w)
      | Inr body \<Rightarrow>
        (case ServiceAccount env ''.info_source.json'' of
           (ProcessExit, t0) \<Rightarrow> (Exited, t0, w)
         | (Return client, t0) \<Rightarrow>
        (case drive_NewService env client of
           Inl err \<Rightarrow>
             (Returned, t0 @ [EvNewService (Inl err),
                c_JSON 500 (H_error ''Failed to create Google Drive service'')], w)
         | Inr srv \<Rightarrow>
        (let t1 = t0 @ [EvNewService (Inr srv)] in
         if FileID body \<noteq> [] then
           (let (g, w1) = Files_Get env srv (FileID body) w;
                t2 = t1 @ [EvGet (FileID body) g]
            in
           (case g of
              Inl err \<Rightarrow>
                (Returned, t2 @ [c_JSON 500 (H_error ''Failed to get file metadata from Google Drive'')], w1)
            | Inr file \<Rightarrow>
                (Returned, t2 @ [c_JSON 200 (JObject [(''message'', JString ''File metadata successfully retrieved''),
                   (''data'', file_data file)])], w1)))
         else if FileName body \<noteq> [] then
           (let q = ''name='' @ sq @ FileName body @ sq;
                (r, w1) = Files_List env srv q w;
                t2 = t1 @ [EvList q r]
            in
           (case r of
              Inl err \<Rightarrow>
                (Returned, t2 @ [c_JSON 500 (H_error ''Failed to list files in Google Drive'')], w1)
            | Inr files \<Rightarrow>
                if length files = 0
                then (Returned, t2 @ [c_JSON 404 (H_error ''File not found'')], w1)
                else (Returned, t2 @ [c_JSON 200 (JObject [(''message'', JString ''File metadata successfully retrieved''),
                        (''data'', file_data (files ! 0))])], w1)))
         else (Returned, t1 @ [c_JSON 400 (H_error ''File ID or File Name is required'')], w)))))"

subsection \<open>deleteFileHandler\<close>

definition deleteFileHandler :: "'w env \<Rightarrow> echo_context \<Rightarrow> 'w \<Rightarrow> status \<times> event list \<times> 'w" where
  "deleteFileHandler env c w =
     (let fileId = Param c ''fileId'' in
      if fileId = [] then (Returned, [c_JSON 400 (H_error ''File ID is required'')], w)
      else
        (case ServiceAccount env ''.info_source.json'' of
           (ProcessExit, t0) \<Rightarrow> (Exited, t0, w)
         | (Return client, t0) \<Rightarrow>
        (case drive_NewService env client of
           Inl err \<Rightarrow>
             (Returned, t0 @ [EvNewService (Inl err),
                c_JSON 500 (H_error ''Failed to create Google Drive service'')], w)
         | Inr srv \<Rightarrow>
        (let (d, w1) = Files_Delete env srv fileId w;
             t1 = t0 @ [EvNewService (Inr srv), EvDelete fileId d]
         in
        (case d of
           Some err \<Rightarrow>
             (Returned, t1 @ [c_JSON 500 (H_error ''Failed to delete file from Google Drive'')], w1)
         | None \<Rightarrow>
             (Returned, t1 @ [c_JSON 200 (JObject [(''message'', JString ''File successfully deleted''),
                (''file_id'', JString fileId)])], w1))))))"

section \<open>Reading a trace\<close>

datatype kind = KRead | KNew | KList | KDelete | KCreate | KGet | KDownload | KClose | KRespond

fun kind_of :: "event \<Rightarrow> kind" where
  "kind_of (EvReadFile p r) = KRead"
| "kind_of (EvNewService r) = KNew"
| "kind_of (EvList q r) = KList"
| "kind_of (EvDelete i d) = KDelete"
| "kind_of (EvCreate f s r) = KCreate"
| "kind_of (EvGet i r) = KGet"
| "kind_of (EvDownload i r) = KDownload"
| "kind_of EvCloseSrc = KClose"
| "kind_of EvCloseBody = KClose"
| "kind_of (EvRespond r) = KRespond"


text \<open>The responses written, in order.\<close>

fun responses :: "event list \<Rightarrow> response list" where
  "responses [] = []"
| "responses (EvRespond r # es) = r # responses es"
| "responses (e # es) = responses es"



section \<open>A small remote store, for concrete runs\<close>

text \<open>
  An in-memory store: the files with their contents, in order of creation. A listing
  answers the two query shapes the handlers send; ids are assigned by the store.
\<close>

definition mem_env :: "(drive_file \<times> string) list env" where
  "mem_env =
     \<lparr>os_ReadFile = (\<lambda>p. if p = ''.info_source.json'' then Inr ''{...}''
                          else Inl (Error ''no such file'')),
      json_Unmarshal = (\<lambda>b. (None, \<lparr>s_Email = ''gw@example.org'', s_PrivateKey = ''PEM''\<rparr>)),
      DriveScope = ''https://www.googleapis.com/auth/drive'',
      JWTTokenURL = ''https://oauth2.googleapis.com/token'',
      drive_NewService = (\<lambda>cl. Inr (Service cl)),
      Files_List = (\<lambda>srv q w.
        (Inr (filter (\<lambda>f. q = ''name='' @ sq @ f_Name f @ sq
                 \<or> q \<in> set (map (\<lambda>p. sq @ p @ sq @ '' in parents'') (f_Parents f))) (map fst w)), w)),
      Files_Delete = (\<lambda>srv i w.
        if i \<in> set (map (f_Id \<circ> fst) w) then (None, filter (\<lambda>e. f_Id (fst e) \<noteq> i) w)
        else (Some (Error ''notFound''), w)),
      Files_Create = (\<lambda>srv f content w.
        (let g = f\<lparr>f_Id := ''id'' @ replicate (length w) CHR ''x'',
                    f_WebViewLink := ''https://drive.example/'' @ f_Name f\<rparr>
         in (Inr g, w @ [(g, content)]))),
      Files_Get = (\<lambda>srv i w.
        (case find (\<lambda>e. f_Id (fst e) = i) w of
           None \<Rightarrow> (Inl (Error ''notFound''), w)
         | Some e \<Rightarrow> (Inr (fst e), w))),
      Files_Download = (\<lambda>srv i w.
        (case find (\<lambda>e. f_Id (fst e) = i) w of
           None \<Rightarrow> (Inl (Error ''notFound''), w)
         | Some e \<Rightarrow> (Inr \<lparr>hdr_ContentType = f_MimeType (fst e),
                            resp_Body = \<lparr>rd_data = snd e, rd_err = None\<rparr>\<rparr>, w)))\<rparr>"

text \<open>The same machine with a secret file that is readable and is not JSON.\<close>

definition bad_secret_env :: "(drive_file \<times> string) list env" where
  "bad_secret_env = mem_env\<lparr>os_ReadFile := (\<lambda>p. Inr ''not json''),
     json_Unmarshal := (\<lambda>b. (Some (Error ''invalid character''),
        \<lparr>s_Email = [], s_PrivateKey = []\<rparr>))\<rparr>"

text \<open>A request with nothing in it, and the requests built from it.\<close>

definition blank_ctx :: echo_context where
  "blank_ctx =
     \<lparr>FormValue = (\<lambda>k. []), FormFile = (\<lambda>k. Inl (Error ''http: no such file'')),
      QueryParam = (\<lambda>k. []), Param = (\<lambda>k. []), Bind = Inl (Error ''EOF''),
      writer_cap = None\<rparr>"

definition upload_ctx :: "string \<Rightarrow> error + FileHeader \<Rightarrow> echo_context" where
  "upload_ctx folder part =
     blank_ctx\<lparr>FormValue := (\<lambda>k. if k = ''folder'' then folder else []),
               FormFile := (\<lambda>k. if k = ''file'' then part else Inl (Error ''http: no such file''))\<rparr>"

definition list_ctx :: "string \<Rightarrow> echo_context" where
  "list_ctx folder = blank_ctx\<lparr>QueryParam := (\<lambda>k. if k = ''folder'' then folder else [])\<rparr>"

definition file_ctx :: "string \<Rightarrow> nat option \<Rightarrow> echo_context" where
  "file_ctx fileId cap =
     blank_ctx\<lparr>Param := (\<lambda>k. if k = ''fileId'' then fileId else []), writer_cap := cap\<rparr>"

definition metadata_ctx :: "string \<Rightarrow> string \<Rightarrow> echo_context" where
  "metadata_ctx fid fname = blank_ctx\<lparr>Bind := Inr \<lparr>FileID = fid, FileName = fname\<rparr>\<rparr>"

definition a_txt :: FileHeader where
  "a_txt = \<lparr>fh_Filename = ''a.txt'', fh_ContentType = ''text/plain'', fh_Open = Inr ''hello''\<rparr>"

definition its_txt :: FileHeader where
  "its_txt = \<lparr>fh_Filename = ''it'' @ [CHR 0x27] @ ''s'', fh_ContentType = ''text/plain'',
     fh_Open = Inr ''hello''\<rparr>"

definition old_a :: drive_file where
  "old_a = \<lparr>f_Id = ''old1'', f_Name = ''a.txt'', f_MimeType = ''text/plain'',
     f_Parents = [''root''], f_WebViewLink = ''https://drive.example/old1''\<rparr>"

definition old_b :: drive_file where
  "old_b = \<lparr>f_Id = ''old2'', f_Name = ''a.txt'', f_MimeType = ''text/html'',
     f_Parents = [''F''], f_WebViewLink = ''https://drive.example/old2''\<rparr>"

definition two_files :: "(drive_file \<times> string) list" where
  "two_files = [(old_a, ''v1''), (old_b, ''v2'')]"

definition gw_service :: service where
  "gw_service = Service \<lparr>cfg_Email = ''gw@example.org'', cfg_PrivateKey = ''PEM'',
     cfg_Scopes = [''https://www.googleapis.com/auth/drive''],
     cfg_TokenURL = ''https://oauth2.googleapis.com/token''\<rparr>"

definition new_a :: drive_file where
  "new_a = \<lparr>f_Id = ''id'', f_Name = ''a.txt'', f_MimeType = ''text/plain'',
     f_Parents = [''F''], f_WebViewLink = ''https://drive.example/a.txt''\<rparr>"

section \<open>Auxiliary facts\<close>

lemmas handler_defs = uploadFileHandler_def Let_def deferred_def ServiceAccount_def createFile_def
  c_JSON_def H_error_def file_data_def

lemmas demo_defs = mem_env_def bad_secret_env_def blank_ctx_def upload_ctx_def list_ctx_def
  file_ctx_def metadata_ctx_def a_txt_def its_txt_def old_a_def old_b_def two_files_def
  gw_service_def new_a_def sq_def

lemma ServiceAccount_cases:
  "(\<exists>err. ServiceAccount env p = (ProcessExit, [EvReadFile p (Inl err)]))
   \<or> (\<exists>b cl. ServiceAccount env p = (Return cl, [EvReadFile p (Inr b)]))"
  by (cases "os_ReadFile env p") (simp_all add: ServiceAccount_def Let_def)

text \<open>A part that is present and cannot be opened is answered with 500, before the
  secret is read and before any remote call.\<close>

lemma upload_open_failure:
  "FormValue c ''folder'' \<noteq> [] \<Longrightarrow> FormFile c ''file'' = Inr file \<Longrightarrow> fh_Open file = Inl err \<Longrightarrow>
     uploadFileHandler env c w =
       (Returned, [EvRespond (JSON 500 (JObject [(''error'', JString ''Failed to open file'')]))], w)"
  by (simp add: uploadFileHandler_def c_JSON_def H_error_def)












subsection \<open>Concrete runs against the small store\<close>





lemma run_metadata_by_id:
  "getFileMetadataHandler mem_env (metadata_ctx ''old2'' ''a.txt'') two_files =
     (Returned,
      [EvReadFile ''.info_source.json'' (Inr ''{...}''), EvNewService (Inr gw_service),
       EvGet ''old2'' (Inr old_b),
       EvRespond (JSON 200 (JObject [(''message'', JString ''File metadata successfully retrieved''),
          (''data'', JObject [(''file_id'', JString ''old2''), (''file_name'', JString ''a.txt''),
             (''file_url'', JString ''https://drive.example/old2'')])]))],
      two_files)"
  by (simp add: getFileMetadataHandler_def handler_defs demo_defs)

lemma run_metadata_unknown_id:
  "getFileMetadataHandler mem_env (metadata_ctx ''gone'' ''a.txt'') two_files =
     (Returned,
      [EvReadFile ''.info_source.json'' (Inr ''{...}''), EvNewService (Inr gw_service),
       EvGet ''gone'' (Inl (Error ''notFound'')),
       EvRespond (JSON 500 (JObject [(''error'', JString ''Failed to get file metadata from Google Drive'')]))],
      two_files)"
  by (simp add: getFileMetadataHandler_def handler_defs demo_defs)

lemma run_metadata_by_name:
  "getFileMetadataHandler mem_env (metadata_ctx [] ''a.txt'') two_files =
     (Returned,
      [EvReadFile ''.info_source.json'' (Inr ''{...}''), EvNewService (Inr gw_service),
       EvList (''name='' @ [CHR 0x27] @ ''a.txt'' @ [CHR 0x27]) (Inr [old_a, old_b]),
       EvRespond (JSON 200 (JObject [(''message'', JString ''File metadata successfully retrieved''),
          (''data'', JObject [(''file_id'', JString ''old1''), (''file_name'', JString ''a.txt''),
             (''file_url'', JString ''https://drive.example/old1'')])]))],
      two_files)"
  by (simp add: getFileMetadataHandler_def handler_defs demo_defs)

lemma run_metadata_unknown_name:
  "getFileMetadataHandler mem_env (metadata_ctx [] ''b.txt'') two_files =
     (Returned,
      [EvReadFile ''.info_source.json'' (Inr ''{...}''), EvNewService (Inr gw_service),
       EvList (''name='' @ [CHR 0x27] @ ''b.txt'' @ [CHR 0x27]) (Inr []),
       EvRespond (JSON 404 (JObject [(''error'', JString ''File not found'')]))],
      two_files)"
  by (simp add: getFileMetadataHandler_def handler_defs demo_defs)

lemma run_metadata_neither:
  "getFileMetadataHandler mem_env (metadata_ctx [] []) two_files =
     (Returned,
      [EvReadFile ''.info_source.json'' (Inr ''{...}''), EvNewService (Inr gw_service),
       EvRespond (JSON 400 (JObject [(''error'', JString ''File ID or File Name is required'')]))],
      two_files)"
  by (simp add: getFileMetadataHandler_def handler_defs demo_defs)

lemma run_download_whole:
  "getFileHandler mem_env (file_ctx ''old2'' None) two_files =
     (Returned,
      [EvReadFile ''.info_source.json'' (Inr ''{...}''), EvNewService (Inr gw_service),
       EvDownload ''old2'' (Inr \<lparr>hdr_ContentType = ''text/html'',
          resp_Body = \<lparr>rd_data = ''v2'', rd_err = None\<rparr>\<rparr>),
       EvRespond (Stream 200 ''text/html'' ''v2'' None), EvCloseBody],
      two_files)"
  by (simp add: getFileHandler_def c_Stream_def io_Copy_def handler_defs demo_defs)

lemma run_download_cut:
  "getFileHandler mem_env (file_ctx ''old2'' (Some (Suc 0))) two_files =
     (Returned,
      [EvReadFile ''.info_source.json'' (Inr ''{...}''), EvNewService (Inr gw_service),
       EvDownload ''old2'' (Inr \<lparr>hdr_ContentType = ''text/html'',
          resp_Body = \<lparr>rd_data = ''v2'', rd_err = None\<rparr>\<rparr>),
       EvRespond (Stream 200 ''text/html'' ''v'' (Some (Error ''short write''))), EvCloseBody],
      two_files)"
  by (simp add: getFileHandler_def c_Stream_def io_Copy_def handler_defs demo_defs)

section \<open>The upload sequence\<close>





section \<open>Requests rejected before any call\<close>

text \<open>
  Claim C3. An upload with an empty \<open>folder\<close> field, an upload whose \<open>file\<close> part
  cannot be read from the request (it is missing, or the form does not parse), and a
  listing with an empty \<open>folder\<close> parameter are each answered with 400 and nothing
  else happens: the secret is not read, no service is built, no remote call is made,
  and the store is unchanged.
\<close>

theorem missing_input_rejected:
  "(FormValue c ''folder'' = [] \<longrightarrow>
      uploadFileHandler env c w =
        (Returned, [EvRespond (JSON 400 (JObject [(''error'', JString ''Folder ID is required'')]))], w))
   \<and> (FormValue c ''folder'' \<noteq> [] \<and> FormFile c ''file'' = Inl err \<longrightarrow>
      uploadFileHandler env c w =
        (Returned, [EvRespond (JSON 400 (JObject [(''error'', JString ''Failed to read file from request'')]))], w))
   \<and> (QueryParam c ''folder'' = [] \<longrightarrow>
      listFilesHandler env c w =
        (Returned, [EvRespond (JSON 400 (JObject [(''error'', JString ''Folder ID is required'')]))], w))"
  by (simp add: uploadFileHandler_def listFilesHandler_def c_JSON_def H_error_def)

theorem missing_input_rejected_witness:
  "uploadFileHandler mem_env (upload_ctx [] (Inr a_txt)) two_files =
     (Returned, [EvRespond (JSON 400 (JObject [(''error'', JString ''Folder ID is required'')]))], two_files)
   \<and> uploadFileHandler mem_env (upload_ctx ''F'' (Inl (Error ''http: no such file''))) two_files =
     (Returned, [EvRespond (JSON 400 (JObject [(''error'', JString ''Failed to read file from request'')]))], two_files)
   \<and> listFilesHandler mem_env (list_ctx []) two_files =
     (Returned, [EvRespond (JSON 400 (JObject [(''error'', JString ''Folder ID is required'')]))], two_files)"
  using missing_input_rejected [of "upload_ctx [] (Inr a_txt)" mem_env two_files]
    missing_input_rejected [of "upload_ctx ''F'' (Inl (Error ''http: no such file''))" mem_env two_files
      "Error ''http: no such file''"]
    missing_input_rejected [of "list_ctx []" mem_env two_files]
  by (simp add: upload_ctx_def list_ctx_def blank_ctx_def)

text \<open>
  Claim C9. A metadata request whose body cannot be bound is answered with 400 and
  the error \<open>Invalid request body\<close>, and nothing else happens: the secret is not
  read and no remote call is made.
\<close>

theorem metadata_unbindable_body:
  "Bind c = Inl err \<Longrightarrow>
     getFileMetadataHandler env c w =
       (Returned, [EvRespond (JSON 400 (JObject [(''error'', JString ''Invalid request body'')]))], w)"
  by (simp add: getFileMetadataHandler_def c_JSON_def H_error_def)

theorem metadata_unbindable_body_witness:
  "Bind blank_ctx = Inl (Error ''EOF'')
   \<and> getFileMetadataHandler mem_env blank_ctx two_files =
     (Returned, [EvRespond (JSON 400 (JObject [(''error'', JString ''Invalid request body'')]))], two_files)"
  using metadata_unbindable_body [of blank_ctx "Error ''EOF''" mem_env two_files]
  by (simp add: blank_ctx_def)

text \<open>
  Claim C10. A download request and a delete request whose \<open>fileId\<close> path parameter
  is empty are answered with 400, and nothing else happens: the secret is not read
  and no remote call is made.
\<close>

theorem empty_fileId_rejected:
  "Param c ''fileId'' = [] \<Longrightarrow>
     getFileHandler env c w =
       (Returned, [EvRespond (JSON 400 (JObject [(''error'', JString ''File ID is required'')]))], w)
     \<and> deleteFileHandler env c w =
       (Returned, [EvRespond (JSON 400 (JObject [(''error'', JString ''File ID is required'')]))], w)"
  by (simp add: getFileHandler_def deleteFileHandler_def c_JSON_def H_error_def)

theorem empty_fileId_rejected_witness:
  "Param (file_ctx [] None) ''fileId'' = []
   \<and> getFileHandler mem_env (file_ctx [] None) two_files =
       (Returned, [EvRespond (JSON 400 (JObject [(''error'', JString ''File ID is required'')]))], two_files)
   \<and> deleteFileHandler mem_env (file_ctx [] None) two_files =
       (Returned, [EvRespond (JSON 400 (JObject [(''error'', JString ''File ID is required'')]))], two_files)"
  using empty_fileId_rejected [of "file_ctx [] None" mem_env two_files]
  by (simp add: file_ctx_def blank_ctx_def)

section \<open>Metadata lookup\<close>

text \<open>
  Claim C4. Once the body is bound and the service is built, the metadata handler
  decides by the fields in this order. A non-empty \<open>file_id\<close>: the only remote call
  is the lookup by that id (no name search), and a failed lookup is answered with the
  generic 500, a successful one with 200 and the file. Otherwise a non-empty
  \<open>file_name\<close>: the only remote call is the search for exactly that name, answered
  with 200 and the first file returned, with 404 when none is returned, and with 500
  when the search fails. Otherwise 400, without a remote call.
\<close>

theorem metadata_precedence:
  assumes run: "getFileMetadataHandler env c w = (st, tr, w')"
    and body: "Bind c = Inr body"
    and srv: "EvNewService (Inr srv) \<in> set tr"
  shows "(FileID body \<noteq> [] \<longrightarrow>
      (\<exists>b g. tr = [EvReadFile ''.info_source.json'' (Inr b), EvNewService (Inr srv),
          EvGet (FileID body) g,
          EvRespond (case g of
             Inl err \<Rightarrow> JSON 500 (JObject [(''error'', JString ''Failed to get file metadata from Google Drive'')])
           | Inr file \<Rightarrow> JSON 200 (JObject [(''message'', JString ''File metadata successfully retrieved''),
               (''data'', file_data file)]))]))
    \<and> (FileID body = [] \<and> FileName body \<noteq> [] \<longrightarrow>
      (\<exists>b r. tr = [EvReadFile ''.info_source.json'' (Inr b), EvNewService (Inr srv),
          EvList (''name='' @ [CHR 0x27] @ FileName body @ [CHR 0x27]) r,
          EvRespond (case r of
             Inl err \<Rightarrow> JSON 500 (JObject [(''error'', JString ''Failed to list files in Google Drive'')])
           | Inr [] \<Rightarrow> JSON 404 (JObject [(''error'', JString ''File not found'')])
           | Inr (file # others) \<Rightarrow> JSON 200 (JObject [(''message'', JString ''File metadata successfully retrieved''),
               (''data'', file_data file)]))]))
    \<and> (FileID body = [] \<and> FileName body = [] \<longrightarrow>
      (\<exists>b. tr = [EvReadFile ''.info_source.json'' (Inr b), EvNewService (Inr srv),
          EvRespond (JSON 400 (JObject [(''error'', JString ''File ID or File Name is required'')]))]))"
proof -
  let ?p = "''.info_source.json''"
  from ServiceAccount_cases [of env ?p] consider
      (exit) err where "ServiceAccount env ?p = (ProcessExit, [EvReadFile ?p (Inl err)])"
    | (ret) b cl where "ServiceAccount env ?p = (Return cl, [EvReadFile ?p (Inr b)])"
    by blast
  then show ?thesis
  proof cases
    case exit
    with run body srv show ?thesis
      by (auto simp: getFileMetadataHandler_def)
  next
    case ret
    show ?thesis
    proof (cases "drive_NewService env cl")
      case (Inl e)
      with run body srv ret show ?thesis
        by (auto simp: getFileMetadataHandler_def c_JSON_def)
    next
      case (Inr srv')
      with run body srv ret have same: "srv' = srv"
        by (auto simp: getFileMetadataHandler_def Let_def c_JSON_def
            split: prod.splits sum.splits if_splits)
      obtain g w1 where g: "Files_Get env srv (FileID body) w = (g, w1)"
        by (cases "Files_Get env srv (FileID body) w")
      obtain r w2 where r: "Files_List env srv (''name='' @ sq @ FileName body @ sq) w = (r, w2)"
        by (cases "Files_List env srv (''name='' @ sq @ FileName body @ sq) w")
      from run body ret Inr same g r show ?thesis
        by (cases g; cases r)
          (auto simp: getFileMetadataHandler_def Let_def c_JSON_def H_error_def sq_def
            split: list.splits if_splits)
    qed
  qed
qed

theorem metadata_precedence_witness:
  "responses (fst (snd (getFileMetadataHandler mem_env (metadata_ctx ''old2'' ''a.txt'') two_files))) =
      [JSON 200 (JObject [(''message'', JString ''File metadata successfully retrieved''),
         (''data'', file_data old_b)])]
   \<and> map kind_of (fst (snd (getFileMetadataHandler mem_env (metadata_ctx ''old2'' ''a.txt'') two_files))) =
      [KRead, KNew, KGet, KRespond]
   \<and> responses (fst (snd (getFileMetadataHandler mem_env (metadata_ctx ''gone'' ''a.txt'') two_files))) =
      [JSON 500 (JObject [(''error'', JString ''Failed to get file metadata from Google Drive'')])]
   \<and> responses (fst (snd (getFileMetadataHandler mem_env (metadata_ctx [] ''a.txt'') two_files))) =
      [JSON 200 (JObject [(''message'', JString ''File metadata successfully retrieved''),
         (''data'', file_data old_a)])]
   \<and> responses (fst (snd (getFileMetadataHandler mem_env (metadata_ctx [] ''b.txt'') two_files))) =
      [JSON 404 (JObject [(''error'', JString ''File not found'')])]
   \<and> responses (fst (snd (getFileMetadataHandler mem_env (metadata_ctx [] []) two_files))) =
      [JSON 400 (JObject [(''error'', JString ''File ID or File Name is required'')])]"
proof -
  have b1: "Bind (metadata_ctx ''old2'' ''a.txt'') = Inr \<lparr>FileID = ''old2'', FileName = ''a.txt''\<rparr>"
    and b2: "Bind (metadata_ctx ''gone'' ''a.txt'') = Inr \<lparr>FileID = ''gone'', FileName = ''a.txt''\<rparr>"
    and b3: "Bind (metadata_ctx [] ''a.txt'') = Inr \<lparr>FileID = [], FileName = ''a.txt''\<rparr>"
    and b4: "Bind (metadata_ctx [] ''b.txt'') = Inr \<lparr>FileID = [], FileName = ''b.txt''\<rparr>"
    and b5: "Bind (metadata_ctx [] []) = Inr \<lparr>FileID = [], FileName = []\<rparr>"
    by (simp_all add: metadata_ctx_def blank_ctx_def)
  note t1 = metadata_precedence [OF run_metadata_by_id b1, of gw_service]
    and t2 = metadata_precedence [OF run_metadata_unknown_id b2, of gw_service]
    and t3 = metadata_precedence [OF run_metadata_by_name b3, of gw_service]
    and t4 = metadata_precedence [OF run_metadata_unknown_name b4, of gw_service]
    and t5 = metadata_precedence [OF run_metadata_neither b5, of gw_service]
  have "\<exists>b g. [EvReadFile ''.info_source.json'' (Inr ''{...}''), EvNewService (Inr gw_service),
       EvGet ''old2'' (Inr old_b),
       EvRespond (JSON 200 (JObject [(''message'', JString ''File metadata successfully retrieved''),
          (''data'', JObject [(''file_id'', JString ''old2''), (''file_name'', JString ''a.txt''),
             (''file_url'', JString ''https://drive.example/old2'')])]))] =
      [EvReadFile ''.info_source.json'' (Inr b), EvNewService (Inr gw_service),
          EvGet ''old2'' g,
          EvRespond (case g of
             Inl err \<Rightarrow> JSON 500 (JObject [(''error'', JString ''Failed to get file metadata from Google Drive'')])
           | Inr file \<Rightarrow> JSON 200 (JObject [(''message'', JString ''File metadata successfully retrieved''),
               (''data'', file_data file)]))]"
    using t1 by simp
  then show ?thesis
    using t2 t3 t4 t5
    by (simp add: run_metadata_by_id run_metadata_unknown_id run_metadata_by_name
        run_metadata_unknown_name run_metadata_neither file_data_def old_a_def old_b_def)
qed



section \<open>Download\<close>

text \<open>
  Claim C6. A download whose remote \<open>Download\<close> call succeeded is answered with
  status 200 and the content type the store reported; the body is the store's stream
  itself, copied to the client: all of its bytes when the copy ends without error, and
  an initial segment of them when the copy fails midway. In both cases the body of
  the store's reply is closed, once, after the copy.
\<close>

theorem download_streams_store_reply:
  assumes run: "getFileHandler env c w = (st, tr, w')"
    and got: "EvDownload i (Inr file) \<in> set tr"
  shows "\<exists>b srv sent err. tr =
      [EvReadFile ''.info_source.json'' (Inr b), EvNewService (Inr srv), EvDownload i (Inr file),
       EvRespond (Stream 200 (hdr_ContentType file) sent err), EvCloseBody]
    \<and> (sent, err) = io_Copy (writer_cap c) (resp_Body file)
    \<and> sent = take (length sent) (rd_data (resp_Body file))
    \<and> (err = None \<longrightarrow> sent = rd_data (resp_Body file))"
  using assms
  by (auto simp: getFileHandler_def Let_def ServiceAccount_def c_JSON_def H_error_def deferred_def
      c_Stream_def io_Copy_def
      split: sum.splits prod.splits or_exit.splits option.splits if_splits)

theorem download_streams_store_reply_witness:
  "fst (snd (getFileHandler mem_env (file_ctx ''old2'' None) two_files)) =
      [EvReadFile ''.info_source.json'' (Inr ''{...}''), EvNewService (Inr gw_service),
       EvDownload ''old2'' (Inr \<lparr>hdr_ContentType = ''text/html'',
          resp_Body = \<lparr>rd_data = ''v2'', rd_err = None\<rparr>\<rparr>),
       EvRespond (Stream 200 ''text/html'' ''v2'' None), EvCloseBody]
   \<and> fst (snd (getFileHandler mem_env (file_ctx ''old2'' (Some (Suc 0))) two_files)) =
      [EvReadFile ''.info_source.json'' (Inr ''{...}''), EvNewService (Inr gw_service),
       EvDownload ''old2'' (Inr \<lparr>hdr_ContentType = ''text/html'',
          resp_Body = \<lparr>rd_data = ''v2'', rd_err = None\<rparr>\<rparr>),
       EvRespond (Stream 200 ''text/html'' ''v'' (Some (Error ''short write''))), EvCloseBody]"
proof -
  let ?file = "\<lparr>hdr_ContentType = ''text/html'', resp_Body = \<lparr>rd_data = ''v2'', rd_err = None\<rparr>\<rparr>"
  have g1: "EvDownload ''old2'' (Inr ?file)
      \<in> set (fst (snd (getFileHandler mem_env (file_ctx ''old2'' None) two_files)))"
    and g2: "EvDownload ''old2'' (Inr ?file)
      \<in> set (fst (snd (getFileHandler mem_env (file_ctx ''old2'' (Some (Suc 0))) two_files)))"
    by (simp_all add: run_download_whole run_download_cut)
  have r1: "getFileHandler mem_env (file_ctx ''old2'' None) two_files =
      (Returned, fst (snd (getFileHandler mem_env (file_ctx ''old2'' None) two_files)), two_files)"
    and r2: "getFileHandler mem_env (file_ctx ''old2'' (Some (Suc 0))) two_files =
      (Returned, fst (snd (getFileHandler mem_env (file_ctx ''old2'' (Some (Suc 0))) two_files)), two_files)"
    by (simp_all add: run_download_whole run_download_cut)
  from download_streams_store_reply [OF r1 g1] download_streams_store_reply [OF r2 g2]
  have "\<exists>b srv sent err. fst (snd (getFileHandler mem_env (file_ctx ''old2'' None) two_files)) =
      [EvReadFile ''.info_source.json'' (Inr b), EvNewService (Inr srv), EvDownload ''old2'' (Inr ?file),
       EvRespond (Stream 200 ''text/html'' sent err), EvCloseBody]
      \<and> (sent, err) = io_Copy (writer_cap (file_ctx ''old2'' None)) \<lparr>rd_data = ''v2'', rd_err = None\<rparr>"
    and "\<exists>b srv sent err. fst (snd (getFileHandler mem_env (file_ctx ''old2'' (Some (Suc 0))) two_files)) =
      [EvReadFile ''.info_source.json'' (Inr b), EvNewService (Inr srv), EvDownload ''old2'' (Inr ?file),
       EvRespond (Stream 200 ''text/html'' sent err), EvCloseBody]
      \<and> (sent, err) = io_Copy (writer_cap (file_ctx ''old2'' (Some (Suc 0)))) \<lparr>rd_data = ''v2'', rd_err = None\<rparr>"
    by auto
  then show ?thesis
    by (simp add: run_download_whole run_download_cut)
qed

section \<open>The credential loader\<close>

text \<open>
  Claim C7. \<open>ServiceAccount\<close> ends the process exactly when the secret file cannot
  be read. For every file that can be read it returns a client, whatever the decoding
  of the contents yields (the decoding error is dropped): the client carries the
  fields as the decoder left them, the one scope and the token endpoint.
\<close>

theorem ServiceAccount_exits_iff_unreadable:
  "(fst (ServiceAccount env secretFile) = ProcessExit) = (\<exists>err. os_ReadFile env secretFile = Inl err)
   \<and> (\<forall>b. os_ReadFile env secretFile = Inr b \<longrightarrow>
         fst (ServiceAccount env secretFile) =
           Return \<lparr>cfg_Email = s_Email (snd (json_Unmarshal env b)),
                    cfg_PrivateKey = s_PrivateKey (snd (json_Unmarshal env b)),
                    cfg_Scopes = [DriveScope env], cfg_TokenURL = JWTTokenURL env\<rparr>)"
  by (cases "os_ReadFile env secretFile") (simp_all add: ServiceAccount_def Let_def)

theorem ServiceAccount_exits_iff_unreadable_witness:
  "os_ReadFile bad_secret_env ''.info_source.json'' = Inr ''not json''
   \<and> fst (json_Unmarshal bad_secret_env ''not json'') = Some (Error ''invalid character'')
   \<and> fst (ServiceAccount bad_secret_env ''.info_source.json'') =
        Return \<lparr>cfg_Email = [], cfg_PrivateKey = [],
                 cfg_Scopes = [''https://www.googleapis.com/auth/drive''],
                 cfg_TokenURL = ''https://oauth2.googleapis.com/token''\<rparr>
   \<and> os_ReadFile mem_env ''missing.json'' = Inl (Error ''no such file'')
   \<and> fst (ServiceAccount mem_env ''missing.json'') = ProcessExit"
  using ServiceAccount_exits_iff_unreadable [of bad_secret_env "''.info_source.json''"]
    ServiceAccount_exits_iff_unreadable [of mem_env "''missing.json''"]
  by (simp add: bad_secret_env_def mem_env_def)

section \<open>The queries sent to the store\<close>



end
